theory Spec2Isabelle
  imports Complex_Main
begin

section \<open>Values, exceptions and records\<close>

text \<open>
  The services exchange JSON-shaped Python values: task results, webhook payloads, the
  results map of a batch job and what the cache stores.  \<open>JNull\<close> is Python's \<open>None\<close>.
  A Python \<open>str\<close> is a list of characters, one element per code point, so \<open>length\<close> is
  Python's \<open>len\<close>.
\<close>

datatype json =
    JNull
  | JBool bool
  | JInt int
  | JStr string
  | JList "json list"
  | JDict "(string \<times> json) list"

text \<open>Python truthiness, as \<open>if cached_result:\<close> and \<open>if context:\<close> test it.\<close>

fun truthy :: "json \<Rightarrow> bool" where
  "truthy JNull = False"
| "truthy (JBool b) = b"
| "truthy (JInt n) = (n \<noteq> 0)"
| "truthy (JStr s) = (s \<noteq> [])"
| "truthy (JList xs) = (xs \<noteq> [])"
| "truthy (JDict kvs) = (kvs \<noteq> [])"

text \<open>\<open>d[k] = v\<close> on a dict kept as an association list: an existing key keeps its place.\<close>

fun dict_set :: "string \<Rightarrow> json \<Rightarrow> (string \<times> json) list \<Rightarrow> (string \<times> json) list" where
  "dict_set k v [] = [(k, v)]"
| "dict_set k v ((k', v') # kvs) =
     (if k' = k then (k, v) # kvs else (k', v') # dict_set k v kvs)"

text \<open>An exception is its class name and its message; \<open>str(e)\<close> is the message.\<close>

datatype exn = Exn string string

fun str_exn :: "exn \<Rightarrow> string" where
  "str_exn (Exn cls msg) = msg"

text \<open>
  A name between single quotes, as Python's messages show it and as the \<open>str\<close> of a
  \<open>KeyError\<close> shows the missing key.
\<close>

definition quoted :: "string \<Rightarrow> string" where
  "quoted s = CHR 0x27 # s @ [CHR 0x27]"

text \<open>Reading an attribute that an object of the class does not have.\<close>

definition no_attribute :: "string \<Rightarrow> string \<Rightarrow> exn" where
  "no_attribute cls name =
     Exn ''AttributeError'' (quoted cls @ '' object has no attribute '' @ quoted name)"

text \<open>\<open>TaskStatus\<close> of \<open>schemas.py\<close>.\<close>

datatype task_status = PENDING | PROCESSING | COMPLETED | FAILED | CANCELLED

text \<open>
  The rows of \<open>models/database.py\<close>, column by column (\<open>updated_at\<close>, which no service
  reads, is left out).  Field names carry a prefix because the three classes share column
  names.  Timestamps are readings of the clock.  A \<open>Task\<close> has no column \<open>parameters\<close> and
  a \<open>BatchJob\<close> has no column \<open>webhook_url\<close>.
\<close>

record task =
  t_id :: string
  t_task_type :: string
  t_status :: task_status
  t_input_text :: string
  t_input_hash :: string
  t_result :: "json option"
  t_error :: "string option"
  t_created_at :: int
  t_completed_at :: "int option"
  t_processing_time :: "int option"
  t_batch_job_id :: "string option"

record batch_job =
  j_id :: string
  j_status :: task_status
  j_total_tasks :: int
  j_completed_tasks :: int
  j_failed_tasks :: int
  j_results :: "(string \<times> json) list option"
  j_error :: "string option"
  j_created_at :: int
  j_completed_at :: "int option"
  j_processing_time :: "int option"

record webhook =
  w_id :: string
  w_url :: string
  w_events :: "string list"
  w_description :: "string option"
  w_secret :: string
  w_is_active :: bool
  w_failure_count :: int
  w_last_triggered :: "int option"
  w_last_status :: "int option"

text \<open>A scored match of the similarity index; \<open>m_text\<close> is \<open>metadata["text"]\<close> when present.\<close>

record rag_match =
  m_id :: string
  m_score :: real
  m_text :: "string option"

text \<open>
  What one \<open>client.post\<close> followed by \<open>raise_for_status\<close> does: a response with a success
  status; an \<open>httpx.HTTPStatusError\<close>, which carries the response and its status; another
  \<open>httpx.HTTPError\<close>, that is a request that got no response (the argument is the name of
  the exception's class, such as \<open>ConnectError\<close>); or an exception of another kind, with
  its message.
\<close>

datatype post_outcome =
    Response int
  | HTTPStatusError int
  | RequestError string
  | OtherException string

section \<open>The world and its environment\<close>

text \<open>
  The state the services share: the three tables, the Redis store (key to serialised value
  and the time-to-live it was stored with; every call considered happens before expiry),
  the clock, and two logs that record what was sent out: the webhook POSTs (URL, body,
  headers) and the requests to the inference provider (endpoint, body).
\<close>

record world =
  tasks :: "task list"
  batch_jobs :: "batch_job list"
  webhooks :: "webhook list"
  redis :: "(string \<times> json \<times> int) list"
  clock :: int
  uuid_counter :: nat
  http_posts :: "(string \<times> json \<times> (string \<times> string) list) list"
  provider_requests :: "(string \<times> json) list"

text \<open>
  What the code takes from outside: the settings of \<open>core/config.py\<close> it reads, the hash
  functions, the identifier generator, and the answers of the external services.  The
  \<open>k\<close>-th request to the inference provider is answered by \<open>ultrasafe_api e k\<close>, the
  \<open>k\<close>-th webhook POST by \<open>http_post e k\<close>.
\<close>

record env =
  PROJECT_NAME :: string
  CACHE_ENABLED :: bool
  CACHE_TTL :: int
  MAX_WEBHOOK_FAILURES :: int
  ULTRASAFE_MAX_RETRIES :: int
  RAG_TOP_K :: int
  RAG_SCORE_THRESHOLD :: real
  sha256_hexdigest :: "string \<Rightarrow> string"
  hmac_sha256_hexdigest :: "string \<Rightarrow> string \<Rightarrow> string"
  json_dumps_sorted :: "json \<Rightarrow> string"
  uuid4 :: "nat \<Rightarrow> string"
  pinecone_query :: "string \<Rightarrow> int \<Rightarrow> exn + rag_match list"
  ultrasafe_api :: "nat \<Rightarrow> string \<Rightarrow> json \<Rightarrow> exn + json"
  http_post :: "nat \<Rightarrow> string \<Rightarrow> json \<Rightarrow> post_outcome"

section \<open>Webhook service\<close>

text \<open>The constants set in \<open>WebhookService.__init__\<close>.\<close>

definition max_retries :: nat where
  "max_retries = 3"

definition retry_delay :: int where
  "retry_delay = 5"

text \<open>
  \<open>await asyncio.sleep(self.retry_delay)\<close>: the module \<open>webhook_service.py\<close> never imports
  \<open>asyncio\<close>, so evaluating the name raises \<open>NameError\<close> before any waiting happens.
\<close>

definition asyncio_sleep :: "int \<Rightarrow> exn + unit" where
  "asyncio_sleep delay =
     Inl (Exn ''NameError'' (''name '' @ quoted ''asyncio'' @ '' is not defined''))"

definition generate_signature :: "env \<Rightarrow> json \<Rightarrow> string \<Rightarrow> string" where
  "generate_signature e payload secret =
     hmac_sha256_hexdigest e secret (json_dumps_sorted e payload)"

text \<open>\<open>db.commit()\<close> after the service changed the attributes of the webhook it holds.\<close>

definition commit_webhook :: "webhook \<Rightarrow> world \<Rightarrow> world" where
  "commit_webhook webhook w =
     w\<lparr>webhooks := map (\<lambda>x. if w_id x = w_id webhook then webhook else x) (webhooks w)\<rparr>"

text \<open>
  The loop \<open>for attempt in range(self.max_retries)\<close> of \<open>send_notification\<close>: \<open>n\<close> rounds
  remain and \<open>attempt\<close> is the loop variable.  A success returns \<open>True\<close>.  The handler of
  \<open>httpx.HTTPError\<close> counts a failure, reads \<open>e.response\<close>, commits and deactivates at the
  threshold; an error without a response has no attribute \<open>response\<close>, so for it the read
  raises \<open>AttributeError\<close> inside the handler and the call ends there, before the commit:
  the count made on the object is not written.  Any other exception counts a failure and
  checks nothing.  A round that did not return sleeps when it is not the last one.
\<close>

fun attempts ::
  "env \<Rightarrow> json \<Rightarrow> (string \<times> string) list \<Rightarrow> nat \<Rightarrow> nat \<Rightarrow> webhook \<Rightarrow> world
    \<Rightarrow> (exn + bool) \<times> world" where
  "attempts e payload headers 0 attempt webhook w = (Inr False, w)"
| "attempts e payload headers (Suc n) attempt webhook w =
     (let w1 = w\<lparr>http_posts := http_posts w @ [(w_url webhook, payload, headers)]\<rparr> in
      case http_post e (length (http_posts w)) (w_url webhook) payload of
        Response code \<Rightarrow>
          (Inr True,
           commit_webhook
             (webhook\<lparr>w_last_triggered := Some (clock w),
                      w_last_status := Some code,
                      w_failure_count := 0\<rparr>) w1)
      | HTTPStatusError status \<Rightarrow>
          (let webhook1 = webhook\<lparr>w_failure_count := w_failure_count webhook + 1,
                                  w_last_status := Some status\<rparr>;
               w2 = commit_webhook webhook1 w1
           in if w_failure_count webhook1 \<ge> MAX_WEBHOOK_FAILURES e
              then (Inr False, commit_webhook (webhook1\<lparr>w_is_active := False\<rparr>) w2)
              else if attempt < max_retries - 1
              then (case asyncio_sleep retry_delay of
                      Inl x \<Rightarrow> (Inl x, w2)
                    | Inr u \<Rightarrow> attempts e payload headers n (Suc attempt) webhook1 w2)
              else attempts e payload headers n (Suc attempt) webhook1 w2)
      | RequestError cls \<Rightarrow> (Inl (no_attribute cls ''response''), w1)
      | OtherException msg \<Rightarrow>
          (let webhook1 = webhook\<lparr>w_failure_count := w_failure_count webhook + 1\<rparr>;
               w2 = commit_webhook webhook1 w1
           in if attempt < max_retries - 1
              then (case asyncio_sleep retry_delay of
                      Inl x \<Rightarrow> (Inl x, w2)
                    | Inr u \<Rightarrow> attempts e payload headers n (Suc attempt) webhook1 w2)
              else attempts e payload headers n (Suc attempt) webhook1 w2))"

definition notification_headers :: "env \<Rightarrow> string \<Rightarrow> json \<Rightarrow> webhook \<Rightarrow> (string \<times> string) list" where
  "notification_headers e webhook_id payload webhook =
     [(''Content-Type'', ''application/json''),
      (''User-Agent'', PROJECT_NAME e @ ''/1.0.0''),
      (''X-Webhook-ID'', webhook_id),
      (''X-Webhook-Signature'', generate_signature e payload (w_secret webhook))]"

definition send_notification :: "env \<Rightarrow> string \<Rightarrow> json \<Rightarrow> world \<Rightarrow> (exn + bool) \<times> world" where
  "send_notification e webhook_id payload w =
     (case find (\<lambda>x. w_id x = webhook_id) (webhooks w) of
        None \<Rightarrow> (Inr False, w)
      | Some webhook \<Rightarrow>
          if \<not> w_is_active webhook then (Inr False, w)
          else attempts e payload (notification_headers e webhook_id payload webhook)
                 max_retries 0 webhook w)"

section \<open>Cache service\<close>

text \<open>
  What \<open>cache_service.set\<close> is handed: a JSON-shaped value, or a \<open>Task\<close> row object.
  \<open>json.dumps\<close> serialises the first and raises \<open>TypeError\<close> on the second.  The
  serialised form is kept as the value itself, so \<open>json.loads\<close> of it is the identity.
\<close>

datatype pyobj = JsonValue json | TaskObject task

fun json_dumps :: "pyobj \<Rightarrow> exn + json" where
  "json_dumps (JsonValue v) = Inr v"
| "json_dumps (TaskObject t) =
     Inl (Exn ''TypeError'' ''Object of type Task is not JSON serializable'')"

text \<open>\<open>CacheService.get\<close>: the stored value, or \<open>None\<close>.\<close>

definition cache_get :: "string \<Rightarrow> world \<Rightarrow> json option" where
  "cache_get key w = map_option fst (map_of (redis w) key)"

text \<open>
  \<open>CacheService.set\<close>: serialise, then \<open>setex\<close> with \<open>ttl or self.default_ttl\<close>; any
  exception is logged and the call returns \<open>False\<close>.  Redis refuses an expiry that is not
  positive, which is such an exception.
\<close>

definition cache_set :: "env \<Rightarrow> string \<Rightarrow> pyobj \<Rightarrow> int option \<Rightarrow> world \<Rightarrow> bool \<times> world" where
  "cache_set e key val ttl w =
     (case json_dumps val of
        Inl x \<Rightarrow> (False, w)
      | Inr serialized \<Rightarrow>
          (let expiry = (case ttl of None \<Rightarrow> CACHE_TTL e
                         | Some n \<Rightarrow> if n = 0 then CACHE_TTL e else n)
           in if expiry \<le> 0 then (False, w)
              else (True,
                    w\<lparr>redis := (key, serialized, expiry)
                               # filter (\<lambda>kv. fst kv \<noteq> key) (redis w)\<rparr>)))"

section \<open>Context provider\<close>

text \<open>
  \<open>RAGService.search_similar\<close> with \<open>top_k\<close> left out: query the index for
  \<open>RAG_TOP_K\<close> matches and keep, in the order returned, those whose score reaches the
  threshold.  An exception of the index is re-raised.
\<close>

definition search_similar :: "env \<Rightarrow> string \<Rightarrow> exn + rag_match list" where
  "search_similar e query =
     (case pinecone_query e query (RAG_TOP_K e) of
        Inl x \<Rightarrow> Inl x
      | Inr ms \<Rightarrow> Inr (filter (\<lambda>m. m_score m \<ge> RAG_SCORE_THRESHOLD e) ms))"

text \<open>
  The loop of \<open>get_relevant_context\<close>: \<open>context\<close> is the list built so far and
  \<open>current_length\<close> the sum of the lengths in it.  The loop breaks at the first text that
  would take the sum past \<open>max_length\<close>; a match without text raises \<open>KeyError\<close>.
\<close>

fun combine :: "int \<Rightarrow> rag_match list \<Rightarrow> string list \<Rightarrow> int \<Rightarrow> exn + string list" where
  "combine max_length [] context current_length = Inr context"
| "combine max_length (m # ms) context current_length =
     (case m_text m of
        None \<Rightarrow> Inl (Exn ''KeyError'' (quoted ''text''))
      | Some text \<Rightarrow>
          if current_length + int (length text) > max_length then Inr context
          else combine max_length ms (context @ [text]) (current_length + int (length text)))"

text \<open>\<open>"\n".join(context)\<close>.\<close>

fun join_newline :: "string list \<Rightarrow> string" where
  "join_newline [] = []"
| "join_newline [x] = x"
| "join_newline (x # y # ys) = x @ CHR 0x0A # join_newline (y # ys)"

text \<open>
  \<open>get_relevant_context\<close>: \<open>None\<close> when the search raises, finds nothing, or the loop
  raises; otherwise the joined texts.
\<close>

definition get_relevant_context :: "env \<Rightarrow> string \<Rightarrow> int \<Rightarrow> string option" where
  "get_relevant_context e query max_length =
     (case search_similar e query of
        Inl x \<Rightarrow> None
      | Inr matches \<Rightarrow>
          if matches = [] then None
          else (case combine max_length matches [] 0 of
                  Inl x \<Rightarrow> None
                | Inr context \<Rightarrow> Some (join_newline context)))"

section \<open>Inference gateway\<close>

text \<open>
  \<open>UltraSafeClient._make_request\<close>: \<open>n\<close> rounds of \<open>range(self.max_retries)\<close> remain.
  Every round sends one request; an exception is re-raised in the last round and
  swallowed before it.  Falling out of the loop returns \<open>None\<close>.
\<close>

fun make_request_rounds :: "env \<Rightarrow> string \<Rightarrow> json \<Rightarrow> nat \<Rightarrow> world \<Rightarrow> (exn + json) \<times> world" where
  "make_request_rounds e endpoint data 0 w = (Inr JNull, w)"
| "make_request_rounds e endpoint data (Suc n) w =
     (let w1 = w\<lparr>provider_requests := provider_requests w @ [(endpoint, data)]\<rparr> in
      case ultrasafe_api e (length (provider_requests w)) endpoint data of
        Inr response \<Rightarrow> (Inr response, w1)
      | Inl x \<Rightarrow> if n = 0 then (Inl x, w1) else make_request_rounds e endpoint data n w1)"

definition make_request :: "env \<Rightarrow> string \<Rightarrow> json \<Rightarrow> world \<Rightarrow> (exn + json) \<times> world" where
  "make_request e endpoint data w =
     make_request_rounds e endpoint data (nat (ULTRASAFE_MAX_RETRIES e)) w"

text \<open>\<open>if context: data["context"] = context\<close>.\<close>

definition context_field :: "string option \<Rightarrow> (string \<times> json) list" where
  "context_field context =
     (case context of
        None \<Rightarrow> []
      | Some c \<Rightarrow> if c = [] then [] else [(''context'', JStr c)])"

definition classify_text :: "env \<Rightarrow> string \<Rightarrow> json \<Rightarrow> string option \<Rightarrow> world \<Rightarrow> (exn + json) \<times> world" where
  "classify_text e text categories context w =
     make_request e ''classify''
       (JDict ([(''text'', JStr text), (''categories'', categories)] @ context_field context)) w"

definition extract_entities :: "env \<Rightarrow> string \<Rightarrow> json \<Rightarrow> string option \<Rightarrow> world \<Rightarrow> (exn + json) \<times> world" where
  "extract_entities e text entity_types context w =
     make_request e ''extract-entities''
       (JDict ([(''text'', JStr text), (''entity_types'', entity_types)] @ context_field context)) w"

definition summarize_text :: "env \<Rightarrow> string \<Rightarrow> json \<Rightarrow> string option \<Rightarrow> world \<Rightarrow> (exn + json) \<times> world" where
  "summarize_text e text max_len context w =
     make_request e ''summarize''
       (JDict ([(''text'', JStr text), (''max_length'', max_len)] @ context_field context)) w"

definition analyze_sentiment :: "env \<Rightarrow> string \<Rightarrow> string option \<Rightarrow> world \<Rightarrow> (exn + json) \<times> world" where
  "analyze_sentiment e text context w =
     make_request e ''analyze-sentiment''
       (JDict ([(''text'', JStr text)] @ context_field context)) w"

section \<open>Task service\<close>

definition generate_input_hash :: "env \<Rightarrow> string \<Rightarrow> string" where
  "generate_input_hash e text = sha256_hexdigest e text"

text \<open>
  The four handlers; \<open>parameters["categories"]\<close> and its like raise \<open>KeyError\<close>, whose
  \<open>str\<close> is the key between quotes.
\<close>

definition handle_classification ::
  "env \<Rightarrow> string \<Rightarrow> (string \<times> json) list \<Rightarrow> string option \<Rightarrow> world \<Rightarrow> (exn + json) \<times> world" where
  "handle_classification e text parameters context w =
     (case map_of parameters ''categories'' of
        None \<Rightarrow> (Inl (Exn ''KeyError'' (quoted ''categories'')), w)
      | Some categories \<Rightarrow> classify_text e text categories context w)"

definition handle_entity_extraction ::
  "env \<Rightarrow> string \<Rightarrow> (string \<times> json) list \<Rightarrow> string option \<Rightarrow> world \<Rightarrow> (exn + json) \<times> world" where
  "handle_entity_extraction e text parameters context w =
     (case map_of parameters ''entity_types'' of
        None \<Rightarrow> (Inl (Exn ''KeyError'' (quoted ''entity_types'')), w)
      | Some entity_types \<Rightarrow> extract_entities e text entity_types context w)"

definition handle_summarization ::
  "env \<Rightarrow> string \<Rightarrow> (string \<times> json) list \<Rightarrow> string option \<Rightarrow> world \<Rightarrow> (exn + json) \<times> world" where
  "handle_summarization e text parameters context w =
     (case map_of parameters ''max_length'' of
        None \<Rightarrow> (Inl (Exn ''KeyError'' (quoted ''max_length'')), w)
      | Some max_len \<Rightarrow> summarize_text e text max_len context w)"

definition handle_sentiment_analysis ::
  "env \<Rightarrow> string \<Rightarrow> (string \<times> json) list \<Rightarrow> string option \<Rightarrow> world \<Rightarrow> (exn + json) \<times> world" where
  "handle_sentiment_analysis e text parameters context w = analyze_sentiment e text context w"

text \<open>\<open>self.task_handlers.get(task_type)\<close>.\<close>

definition task_handlers ::
  "string \<Rightarrow> (env \<Rightarrow> string \<Rightarrow> (string \<times> json) list \<Rightarrow> string option \<Rightarrow> world
      \<Rightarrow> (exn + json) \<times> world) option" where
  "task_handlers task_type =
     (if task_type = ''classification'' then Some handle_classification
      else if task_type = ''entity_extraction'' then Some handle_entity_extraction
      else if task_type = ''summarization'' then Some handle_summarization
      else if task_type = ''sentiment_analysis'' then Some handle_sentiment_analysis
      else None)"

definition get_task :: "world \<Rightarrow> string \<Rightarrow> task option" where
  "get_task w task_id = find (\<lambda>t. t_id t = task_id) (tasks w)"

definition get_batch_job :: "world \<Rightarrow> string \<Rightarrow> batch_job option" where
  "get_batch_job w job_id = find (\<lambda>j. j_id j = job_id) (batch_jobs w)"

text \<open>\<open>db.commit()\<close> after the service changed the attributes of a task or job it holds.\<close>

definition commit_task :: "task \<Rightarrow> world \<Rightarrow> world" where
  "commit_task task w =
     w\<lparr>tasks := map (\<lambda>x. if t_id x = t_id task then task else x) (tasks w)\<rparr>"

definition commit_job :: "batch_job \<Rightarrow> world \<Rightarrow> world" where
  "commit_job job w =
     w\<lparr>batch_jobs := map (\<lambda>x. if j_id x = j_id job then job else x) (batch_jobs w)\<rparr>"

text \<open>
  Reading \<open>task.parameters\<close>.  The \<open>Task\<close> class declares no attribute of that name, and
  neither \<open>create_task\<close> nor \<open>create_batch_job\<close> sets one on the object, so the read
  raises \<open>AttributeError\<close> for every task.
\<close>

definition task_parameters :: "task \<Rightarrow> exn + (string \<times> json) list" where
  "task_parameters task = Inl (no_attribute ''Task'' ''parameters'')"

text \<open>
  Reading \<open>batch_job.webhook_url\<close>.  The \<open>BatchJob\<close> class declares no attribute of that
  name, so the read raises \<open>AttributeError\<close> for every job.
\<close>

definition webhook_url :: "batch_job \<Rightarrow> exn + string option" where
  "webhook_url job = Inl (no_attribute ''BatchJob'' ''webhook_url'')"

text \<open>
  \<open>task.batch_job and task.batch_job.webhook_url\<close>: the value handed to
  \<open>send_notification\<close> as \<open>webhook_id\<close> when the test is true.  A task without a job
  stops at the first operand; for a task with a job the second operand is read.
\<close>

definition task_webhook :: "world \<Rightarrow> task \<Rightarrow> exn + string option" where
  "task_webhook w task =
     (case t_batch_job_id task of
        None \<Rightarrow> Inr None
      | Some job_id \<Rightarrow>
          (case get_batch_job w job_id of
             None \<Rightarrow> Inr None
           | Some job \<Rightarrow>
               (case webhook_url job of
                  Inl x \<Rightarrow> Inl x
                | Inr None \<Rightarrow> Inr None
                | Inr (Some u) \<Rightarrow> Inr (if u = [] then None else Some u))))"

text \<open>
  \<open>(x.completed_at - x.created_at).total_seconds()\<close>.  \<open>completed_at\<close> has just been set to
  \<open>datetime.utcnow()\<close>, which carries no offset; \<open>created_at\<close> is read from a column
  declared \<open>DateTime(timezone=True)\<close> of the PostgreSQL database that \<open>core/config.py\<close>
  configures, and carries one.  Python refuses to subtract the two.
\<close>

definition elapsed_seconds :: "int \<Rightarrow> int \<Rightarrow> exn + int" where
  "elapsed_seconds completed_at created_at =
     Inl (Exn ''TypeError''
            (''can'' @ [CHR 0x27] @ ''t subtract offset-naive and offset-aware datetimes''))"

text \<open>
  \<open>rag_service.get_relevant_context(task.input_text, task.parameters.get("context_length",
  1000))\<close>.  With a length that is no number the comparison inside the loop raises and the
  provider answers \<open>None\<close>, as it does when the search is empty or fails.
\<close>

definition context_for :: "env \<Rightarrow> string \<Rightarrow> (string \<times> json) list \<Rightarrow> string option" where
  "context_for e text parameters =
     (case (case map_of parameters ''context_length'' of None \<Rightarrow> JInt 1000 | Some v \<Rightarrow> v) of
        JInt n \<Rightarrow> get_relevant_context e text n
      | JBool b \<Rightarrow> get_relevant_context e text (if b then 1 else 0)
      | _ \<Rightarrow> None)"

text \<open>A Python value stored in a nullable column: \<open>None\<close> is the absent value.\<close>

definition column_value :: "json \<Rightarrow> json option" where
  "column_value v = (if v = JNull then None else Some v)"

text \<open>The first two statements of the \<open>try\<close> block: \<open>task.status = PROCESSING; db.commit()\<close>.\<close>

definition start_processing :: "task \<Rightarrow> world \<Rightarrow> task \<times> world" where
  "start_processing task w =
     (let task1 = task\<lparr>t_status := PROCESSING\<rparr> in (task1, commit_task task1 w))"

text \<open>
  The \<open>try\<close> block of \<open>_process_task\<close>.  It returns how the block ended, the task object as
  the block left it, and the world.  What the block assigns to the object after the last
  commit it reached is written by the commit of the \<open>except\<close> block.
\<close>

definition process_task_try :: "env \<Rightarrow> task \<Rightarrow> world \<Rightarrow> (exn + unit) \<times> task \<times> world" where
  "process_task_try e task w =
     (let task1 = fst (start_processing task w);
          w1 = snd (start_processing task w)
      in case task_parameters task1 of
           Inl x \<Rightarrow> (Inl x, task1, w1)
         | Inr parameters \<Rightarrow>
             (let context =
                    (if (case map_of parameters ''use_rag'' of None \<Rightarrow> False | Some v \<Rightarrow> truthy v)
                     then context_for e (t_input_text task1) parameters
                     else None)
              in case task_handlers (t_task_type task1) of
                   None \<Rightarrow>
                     (Inl (Exn ''ValueError'' (''Unknown task type: '' @ t_task_type task1)),
                      task1, w1)
                 | Some handler \<Rightarrow>
                     (case handler e (t_input_text task1) parameters context w1 of
                        (Inl x, w2) \<Rightarrow> (Inl x, task1, w2)
                      | (Inr result, w2) \<Rightarrow>
                          (let task2 = task1\<lparr>t_status := COMPLETED,
                                             t_result := column_value result,
                                             t_completed_at := Some (clock w2)\<rparr>
                           in case elapsed_seconds (clock w2) (t_created_at task2) of
                                Inl x \<Rightarrow> (Inl x, task2, w2)
                              | Inr seconds \<Rightarrow>
                                  (let task3 = task2\<lparr>t_processing_time := Some seconds\<rparr>;
                                       w3 = commit_task task3 w2;
                                       w4 = (if CACHE_ENABLED e
                                             then snd (cache_set e
                                                        (t_task_type task3 @ '':''
                                                           @ t_input_hash task3)
                                                        (TaskObject task3) (Some (CACHE_TTL e)) w3)
                                             else w3)
                                   in case task_webhook w4 task3 of
                                        Inl x \<Rightarrow> (Inl x, task3, w4)
                                      | Inr None \<Rightarrow> (Inr (), task3, w4)
                                      | Inr (Some url) \<Rightarrow>
                                          (case send_notification e url
                                                  (JDict [(''event'', JStr ''task.completed''),
                                                          (''task_id'', JStr (t_id task3)),
                                                          (''result'', result)]) w4 of
                                             (Inl x, w5) \<Rightarrow> (Inl x, task3, w5)
                                           | (Inr sent, w5) \<Rightarrow> (Inr (), task3, w5)))))))"

text \<open>
  The \<open>except Exception as e\<close> block of \<open>_process_task\<close>.  An exception raised inside it
  leaves \<open>_process_task\<close>.
\<close>

definition process_task_except :: "env \<Rightarrow> exn \<Rightarrow> task \<Rightarrow> world \<Rightarrow> (exn + unit) \<times> world" where
  "process_task_except e x task w =
     (let task1 = task\<lparr>t_status := FAILED, t_error := Some (str_exn x)\<rparr>;
          w1 = commit_task task1 w
      in case task_webhook w1 task1 of
           Inl y \<Rightarrow> (Inl y, w1)
         | Inr None \<Rightarrow> (Inr (), w1)
         | Inr (Some url) \<Rightarrow>
             (case send_notification e url
                     (JDict [(''event'', JStr ''task.failed''),
                             (''task_id'', JStr (t_id task1)),
                             (''error'', JStr (str_exn x))]) w1 of
                (Inl y, w2) \<Rightarrow> (Inl y, w2)
              | (Inr sent, w2) \<Rightarrow> (Inr (), w2)))"

definition process_task :: "env \<Rightarrow> string \<Rightarrow> world \<Rightarrow> (exn + unit) \<times> world" where
  "process_task e task_id w =
     (case get_task w task_id of
        None \<Rightarrow> (Inr (), w)
      | Some task \<Rightarrow>
          (case process_task_try e task w of
             (Inr u, task', w') \<Rightarrow> (Inr (), w')
           | (Inl x, task', w') \<Rightarrow> process_task_except e x task' w'))"

text \<open>
  The row that \<open>Task(...)\<close>, \<open>db.add\<close> and \<open>db.commit\<close> store: the keyword arguments that
  \<open>create_task\<close> and \<open>create_batch_job\<close> pass, the generated id, the creation time, and
  nothing in the other columns.  Both callers pass \<open>status=TaskStatus.PENDING\<close>.
\<close>

definition new_task_row ::
  "string \<Rightarrow> string \<Rightarrow> string \<Rightarrow> string \<Rightarrow> int \<Rightarrow> string option \<Rightarrow> task" where
  "new_task_row new_id task_type input_text input_hash now batch_job_id =
     \<lparr>t_id = new_id, t_task_type = task_type, t_status = PENDING,
      t_input_text = input_text, t_input_hash = input_hash,
      t_result = None, t_error = None, t_created_at = now,
      t_completed_at = None, t_processing_time = None,
      t_batch_job_id = batch_job_id\<rparr>"

text \<open>
  \<open>create_task\<close> returns the cached value on a hit and the task row otherwise.  The new
  row's id comes from the generator; a clash with a stored id fails the commit (the
  message of the database is left out).
\<close>

datatype created = CachedResult json | TaskRow task

definition create_task ::
  "env \<Rightarrow> string \<Rightarrow> string \<Rightarrow> (string \<times> json) list \<Rightarrow> world \<Rightarrow> (exn + created) \<times> world" where
  "create_task e task_type input_text parameters w =
     (let input_hash = generate_input_hash e input_text;
          cache_key = task_type @ '':'' @ input_hash;
          cached_result = (if CACHE_ENABLED e then cache_get cache_key w else None)
      in case (case cached_result of
                 None \<Rightarrow> None
               | Some c \<Rightarrow> if truthy c then Some c else None) of
           Some c \<Rightarrow> (Inr (CachedResult c), w)
         | None \<Rightarrow>
             (let new_id = uuid4 e (uuid_counter w);
                  w0 = w\<lparr>uuid_counter := Suc (uuid_counter w)\<rparr>
              in if new_id \<in> set (map t_id (tasks w))
                 then (Inl (Exn ''IntegrityError'' ''duplicate key tasks.id''), w0)
                 else
                   (let task = new_task_row new_id task_type input_text input_hash (clock w) None;
                        w1 = w0\<lparr>tasks := tasks w0 @ [task]\<rparr>
                    in case process_task e new_id w1 of
                         (Inl x, w2) \<Rightarrow> (Inl x, w2)
                       | (Inr u, w2) \<Rightarrow>
                           (Inr (TaskRow (case get_task w2 new_id of
                                            None \<Rightarrow> task
                                          | Some t \<Rightarrow> t)), w2))))"

section \<open>Batch jobs\<close>

text \<open>
  The loop \<open>for task in tasks\<close> of \<open>_process_batch_job\<close>.  It carries the job object,
  whose counters it increments, and the \<open>results\<close> dict; an exception of
  \<open>_process_task\<close> leaves the loop.  The code leaves an incremented counter on the
  object until the next \<open>db.commit()\<close> of the session writes it; the loop here writes it
  at once, which gives the same store at every later commit.
\<close>

fun batch_loop ::
  "env \<Rightarrow> task list \<Rightarrow> batch_job \<Rightarrow> (string \<times> json) list \<Rightarrow> world
    \<Rightarrow> (exn + (string \<times> json) list) \<times> batch_job \<times> world" where
  "batch_loop e [] job results w = (Inr results, job, w)"
| "batch_loop e (task # rest) job results w =
     (case process_task e (t_id task) w of
        (Inl x, w1) \<Rightarrow> (Inl x, job, w1)
      | (Inr u, w1) \<Rightarrow>
          (case get_task w1 (t_id task) of
             None \<Rightarrow> (Inl (no_attribute ''NoneType'' ''status''), job, w1)
           | Some task1 \<Rightarrow>
               if t_status task1 = COMPLETED
               then (let job1 = job\<lparr>j_completed_tasks := j_completed_tasks job + 1\<rparr>
                     in batch_loop e rest job1
                          (dict_set (t_id task1)
                             (case t_result task1 of None \<Rightarrow> JNull | Some r \<Rightarrow> r) results)
                          (commit_job job1 w1))
               else (let job1 = job\<lparr>j_failed_tasks := j_failed_tasks job + 1\<rparr>
                     in batch_loop e rest job1
                          (dict_set (t_id task1)
                             (JDict [(''error'',
                                      (case t_error task1 of None \<Rightarrow> JNull | Some m \<Rightarrow> JStr m))])
                             results)
                          (commit_job job1 w1))))"

text \<open>
  The \<open>except Exception as e\<close> block of \<open>_process_batch_job\<close>.  An exception raised inside
  it leaves \<open>_process_batch_job\<close>.
\<close>

definition process_batch_except :: "env \<Rightarrow> exn \<Rightarrow> batch_job \<Rightarrow> world \<Rightarrow> (exn + unit) \<times> world" where
  "process_batch_except e x job w =
     (let job1 = job\<lparr>j_status := FAILED, j_error := Some (str_exn x)\<rparr>;
          w1 = commit_job job1 w
      in case webhook_url job1 of
           Inl y \<Rightarrow> (Inl y, w1)
         | Inr None \<Rightarrow> (Inr (), w1)
         | Inr (Some url) \<Rightarrow>
             if url = [] then (Inr (), w1)
             else (case send_notification e url
                          (JDict [(''event'', JStr ''batch_job.failed''),
                                  (''job_id'', JStr (j_id job1)),
                                  (''error'', JStr (str_exn x))]) w1 of
                     (Inl y, w2) \<Rightarrow> (Inl y, w2)
                   | (Inr sent, w2) \<Rightarrow> (Inr (), w2)))"

text \<open>
  \<open>_process_batch_job\<close>.  What the \<open>try\<close> block assigns to the job object after the last
  commit it reached is written by the commit of the \<open>except\<close> block.
\<close>

definition process_batch_job :: "env \<Rightarrow> string \<Rightarrow> world \<Rightarrow> (exn + unit) \<times> world" where
  "process_batch_job e job_id w =
     (case get_batch_job w job_id of
        None \<Rightarrow> (Inr (), w)
      | Some batch_job \<Rightarrow>
          (let job1 = batch_job\<lparr>j_status := PROCESSING\<rparr>;
               w1 = commit_job job1 w;
               children = filter (\<lambda>t. t_batch_job_id t = Some job_id) (tasks w1)
           in case batch_loop e children job1 [] w1 of
                (Inl x, job2, w2) \<Rightarrow> process_batch_except e x job2 w2
              | (Inr results, job2, w2) \<Rightarrow>
                  (let job3 = job2\<lparr>j_status := COMPLETED,
                                     j_results := Some results,
                                     j_completed_at := Some (clock w2)\<rparr>
                   in case elapsed_seconds (clock w2) (j_created_at job3) of
                        Inl x \<Rightarrow> process_batch_except e x job3 w2
                      | Inr seconds \<Rightarrow>
                          (let job4 = job3\<lparr>j_processing_time := Some seconds\<rparr>;
                               w3 = commit_job job4 w2
                           in case webhook_url job4 of
                                Inl x \<Rightarrow> process_batch_except e x job4 w3
                              | Inr None \<Rightarrow> (Inr (), w3)
                              | Inr (Some url) \<Rightarrow>
                                  if url = [] then (Inr (), w3)
                                  else (case send_notification e url
                                               (JDict [(''event'', JStr ''batch_job.completed''),
                                                       (''job_id'', JStr (j_id job4)),
                                                       (''results'', JDict results)]) w3 of
                                          (Inl x, w4) \<Rightarrow> process_batch_except e x job4 w4
                                        | (Inr sent, w4) \<Rightarrow> (Inr (), w4))))))"

text \<open>
  The rows \<open>create_batch_job\<close> adds for its \<open>tasks\<close> argument, a list of dicts with string
  values; \<open>task_data["task_type"]\<close> and \<open>task_data["text"]\<close> raise \<open>KeyError\<close>.  The
  \<open>k\<close>-th identifier of the generator goes to the first row.
\<close>

fun new_tasks :: "env \<Rightarrow> string \<Rightarrow> int \<Rightarrow> (string \<times> string) list list \<Rightarrow> nat \<Rightarrow> exn + task list" where
  "new_tasks e job_id now [] k = Inr []"
| "new_tasks e job_id now (task_data # rest) k =
     (case map_of task_data ''task_type'' of
        None \<Rightarrow> Inl (Exn ''KeyError'' (quoted ''task_type''))
      | Some task_type \<Rightarrow>
          (case map_of task_data ''text'' of
             None \<Rightarrow> Inl (Exn ''KeyError'' (quoted ''text''))
           | Some text \<Rightarrow>
               (case new_tasks e job_id now rest (Suc k) of
                  Inl x \<Rightarrow> Inl x
                | Inr rows \<Rightarrow>
                    Inr (new_task_row (uuid4 e k) task_type text (generate_input_hash e text)
                           now (Some job_id) # rows))))"

text \<open>
  \<open>BatchJob(status=..., total_tasks=..., webhook_url=...)\<close>.  The constructor of a mapped
  class accepts the names of its attributes as keywords and nothing else; \<open>webhook_url\<close> is
  none of them, so the call raises \<open>TypeError\<close> whatever the values are.
\<close>

definition new_batch_job :: "task_status \<Rightarrow> int \<Rightarrow> string option \<Rightarrow> exn + batch_job" where
  "new_batch_job status total_tasks url =
     Inl (Exn ''TypeError''
            (quoted ''webhook_url'' @ '' is an invalid keyword argument for BatchJob''))"

text \<open>
  \<open>create_batch_job\<close>: the constructor call comes first, then the job's id and creation
  time are set when the row is stored, then the task rows are added and the job is
  processed.  The commits fail when an identifier is already taken.
\<close>

definition create_batch_job ::
  "env \<Rightarrow> (string \<times> string) list list \<Rightarrow> string option \<Rightarrow> world \<Rightarrow> (exn + batch_job) \<times> world" where
  "create_batch_job e task_list url w =
     (case new_batch_job PENDING (int (length task_list)) url of
        Inl x \<Rightarrow> (Inl x, w)
      | Inr job0 \<Rightarrow>
          (let job_id = uuid4 e (uuid_counter w);
               w0 = w\<lparr>uuid_counter := Suc (uuid_counter w)\<rparr>
           in if job_id \<in> set (map j_id (batch_jobs w))
              then (Inl (Exn ''IntegrityError'' ''duplicate key batch_jobs.id''), w0)
              else
                (let batch_job = job0\<lparr>j_id := job_id, j_created_at := clock w\<rparr>;
                     w1 = w0\<lparr>batch_jobs := batch_jobs w0 @ [batch_job]\<rparr>
                 in case new_tasks e job_id (clock w) task_list (uuid_counter w1) of
                      Inl x \<Rightarrow> (Inl x, w1)
                    | Inr rows \<Rightarrow>
                        (let w2 = w1\<lparr>uuid_counter := uuid_counter w1 + length rows\<rparr>
                         in if distinct (map t_id rows)
                               \<and> list_all (\<lambda>r. t_id r \<notin> set (map t_id (tasks w))) rows
                            then
                              (let w3 = w2\<lparr>tasks := tasks w2 @ rows\<rparr>
                               in case process_batch_job e job_id w3 of
                                    (Inl x, w4) \<Rightarrow> (Inl x, w4)
                                  | (Inr u, w4) \<Rightarrow>
                                      (Inr (case get_batch_job w4 job_id of
                                              None \<Rightarrow> batch_job
                                            | Some job \<Rightarrow> job), w4))
                            else (Inl (Exn ''IntegrityError'' ''duplicate key tasks.id''), w2)))))"




section \<open>Properties of stores\<close>


text \<open>The same store with another status in the rows of one task id.\<close>

definition with_status :: "string \<Rightarrow> task_status \<Rightarrow> world \<Rightarrow> world" where
  "with_status task_id s w =
     w\<lparr>tasks := map (\<lambda>x. if t_id x = task_id then x\<lparr>t_status := s\<rparr> else x) (tasks w)\<rparr>"

text \<open>The same store with the events list of one webhook replaced.\<close>

definition set_events :: "string list \<Rightarrow> webhook \<Rightarrow> webhook" where
  "set_events evs h = h\<lparr>w_events := evs\<rparr>"

definition with_events :: "string \<Rightarrow> string list \<Rightarrow> world \<Rightarrow> world" where
  "with_events webhook_id evs w =
     w\<lparr>webhooks := map (\<lambda>x. if w_id x = webhook_id then set_events evs x else x) (webhooks w)\<rparr>"

section \<open>Example settings and stores\<close>

text \<open>
  The defaults of \<open>core/config.py\<close>, with stand-ins for the hash functions and the
  identifier generator, an index without documents, an inference provider that answers
  every request and a subscriber that accepts every POST.
\<close>

definition default_env :: env where
  "default_env =
     \<lparr>PROJECT_NAME = ''NLP Pipeline API'', CACHE_ENABLED = True, CACHE_TTL = 3600,
      MAX_WEBHOOK_FAILURES = 3, ULTRASAFE_MAX_RETRIES = 3, RAG_TOP_K = 3,
      RAG_SCORE_THRESHOLD = 7 / 10,
      sha256_hexdigest = (\<lambda>s. ''sha256-'' @ s),
      hmac_sha256_hexdigest = (\<lambda>k m. ''hmac-'' @ k),
      json_dumps_sorted = (\<lambda>v. ''json''),
      uuid4 = (\<lambda>n. replicate (Suc n) CHR ''u''),
      pinecone_query = (\<lambda>q k. Inr []),
      ultrasafe_api = (\<lambda>k endpoint data. Inr (JDict [(''sentiment'', JStr ''positive'')])),
      http_post = (\<lambda>k url payload. Response 200)\<rparr>"

definition empty_world :: world where
  "empty_world =
     \<lparr>tasks = [], batch_jobs = [], webhooks = [], redis = [], clock = 0, uuid_counter = 0,
      http_posts = [], provider_requests = []\<rparr>"

definition hook :: webhook where
  "hook =
     \<lparr>w_id = ''wh1'', w_url = ''https://example.org/hook'', w_events = [''task.completed''],
      w_description = None, w_secret = ''key'', w_is_active = True, w_failure_count = 0,
      w_last_triggered = None, w_last_status = None\<rparr>"

text \<open>A subscriber whose endpoint answers 500, and one where the POST dies of another error.\<close>

definition failing_post_env :: env where
  "failing_post_env = default_env\<lparr>http_post := (\<lambda>k url payload. HTTPStatusError 500)\<rparr>"

definition broken_post_env :: env where
  "broken_post_env = default_env\<lparr>http_post := (\<lambda>k url payload. OtherException ''boom'')\<rparr>"



text \<open>A pending job \<open>j1\<close> of three pending tasks, as rows of the two tables.\<close>

definition child_task :: "string \<Rightarrow> task" where
  "child_task i = new_task_row i ''sentiment_analysis'' ''hello'' ''sha256-hello'' 0 (Some ''j1'')"

definition batch_of_three :: batch_job where
  "batch_of_three =
     \<lparr>j_id = ''j1'', j_status = PENDING, j_total_tasks = 3, j_completed_tasks = 0,
      j_failed_tasks = 0, j_results = None, j_error = None, j_created_at = 0,
      j_completed_at = None, j_processing_time = None\<rparr>"

definition batch_world :: world where
  "batch_world =
     empty_world\<lparr>tasks := [child_task ''c1'', child_task ''c2'', child_task ''c3''],
                  batch_jobs := [batch_of_three]\<rparr>"




text \<open>A store whose cache already holds a classification of the text \<open>hello\<close>.\<close>

definition cached_world :: world where
  "cached_world =
     empty_world\<lparr>redis := [(''classification:sha256-hello'',
                             JDict [(''category'', JStr ''spam'')], 3600)]\<rparr>"

text \<open>An index that returns two short documents for every query.\<close>

definition two_docs_env :: env where
  "two_docs_env =
     default_env\<lparr>pinecone_query :=
                   (\<lambda>q k. Inr [\<lparr>m_id = ''doc_1'', m_score = 9 / 10, m_text = Some ''ab''\<rparr>,
                               \<lparr>m_id = ''doc_2'', m_score = 8 / 10, m_text = Some ''cd''\<rparr>])\<rparr>"

section \<open>Properties of the webhook service\<close>

lemma send_notification_unknown:
  "find (\<lambda>x. w_id x = webhook_id) (webhooks w) = None \<Longrightarrow>
   send_notification e webhook_id payload w = (Inr False, w)"
  by (simp add: send_notification_def)

lemma send_notification_inactive:
  "find (\<lambda>x. w_id x = webhook_id) (webhooks w) = Some webhook \<Longrightarrow> \<not> w_is_active webhook \<Longrightarrow>
   send_notification e webhook_id payload w = (Inr False, w)"
  by (simp add: send_notification_def)

text \<open>
  One call makes one round of the loop and no more: the round returns on a success and on
  a deactivation, and otherwise reaches the sleep, which raises.
\<close>

lemma attempts_first:
  "attempts e payload headers max_retries 0 webhook w =
     (let w1 = w\<lparr>http_posts := http_posts w @ [(w_url webhook, payload, headers)]\<rparr> in
      case http_post e (length (http_posts w)) (w_url webhook) payload of
        Response code \<Rightarrow>
          (Inr True,
           commit_webhook
             (webhook\<lparr>w_last_triggered := Some (clock w),
                      w_last_status := Some code,
                      w_failure_count := 0\<rparr>) w1)
      | HTTPStatusError status \<Rightarrow>
          (let webhook1 = webhook\<lparr>w_failure_count := w_failure_count webhook + 1,
                                  w_last_status := Some status\<rparr>;
               w2 = commit_webhook webhook1 w1
           in if w_failure_count webhook1 \<ge> MAX_WEBHOOK_FAILURES e
              then (Inr False, commit_webhook (webhook1\<lparr>w_is_active := False\<rparr>) w2)
              else (Inl (Exn ''NameError'' (''name '' @ quoted ''asyncio'' @ '' is not defined'')), w2))
      | RequestError cls \<Rightarrow> (Inl (no_attribute cls ''response''), w1)
      | OtherException msg \<Rightarrow>
          (let webhook1 = webhook\<lparr>w_failure_count := w_failure_count webhook + 1\<rparr>;
               w2 = commit_webhook webhook1 w1
           in (Inl (Exn ''NameError'' (''name '' @ quoted ''asyncio'' @ '' is not defined'')), w2)))"
  by (simp add: max_retries_def numeral_3_eq_3 asyncio_sleep_def Let_def split: post_outcome.split)

lemma commit_webhook_posts [simp]:
  "http_posts (commit_webhook h w) = http_posts w"
  by (simp add: commit_webhook_def)

lemma attempts_posts:
  "http_posts (snd (attempts e payload headers max_retries 0 webhook w))
   = http_posts w @ [(w_url webhook, payload, headers)]"
  by (simp add: attempts_first Let_def split: post_outcome.split)

lemma set_events_sel [simp]:
  "w_id (set_events evs h) = w_id h"
  "w_url (set_events evs h) = w_url h"
  "w_failure_count (set_events evs h) = w_failure_count h"
  "w_secret (set_events evs h) = w_secret h"
  "w_is_active (set_events evs h) = w_is_active h"
  by (simp_all add: set_events_def)

lemma set_events_upd:
  "(set_events evs h)\<lparr>w_failure_count := c\<rparr> = set_events evs (h\<lparr>w_failure_count := c\<rparr>)"
  "(set_events evs h)\<lparr>w_last_status := s\<rparr> = set_events evs (h\<lparr>w_last_status := s\<rparr>)"
  "(set_events evs h)\<lparr>w_last_triggered := t\<rparr> = set_events evs (h\<lparr>w_last_triggered := t\<rparr>)"
  "(set_events evs h)\<lparr>w_is_active := b\<rparr> = set_events evs (h\<lparr>w_is_active := b\<rparr>)"
  by (simp_all add: set_events_def)

lemma commit_with_events:
  "w_id h = i \<Longrightarrow>
   commit_webhook (set_events evs h) (with_events i evs w) = with_events i evs (commit_webhook h w)"
  by (auto simp add: commit_webhook_def with_events_def)

lemma with_events_sel [simp]:
  "http_posts (with_events i evs w) = http_posts w"
  "clock (with_events i evs w) = clock w"
  by (simp_all add: with_events_def)

lemma with_events_posts_upd:
  "(with_events i evs w)\<lparr>http_posts := p\<rparr> = with_events i evs (w\<lparr>http_posts := p\<rparr>)"
  by (simp add: with_events_def)

text \<open>The loop runs the same way whatever the events list holds, for any number of rounds.\<close>

lemma attempts_events:
  "w_id webhook = i \<Longrightarrow>
   attempts e payload headers n attempt (set_events evs webhook) (with_events i evs w)
   = map_prod id (with_events i evs) (attempts e payload headers n attempt webhook w)"
proof (induction n arbitrary: attempt webhook w)
  case 0
  show ?case by simp
next
  case (Suc n)
  show ?case using Suc.prems
    by (simp add: Let_def with_events_posts_upd set_events_upd commit_with_events Suc.IH
          split: post_outcome.split sum.split)
qed

lemma find_id_some:
  "find (\<lambda>x. w_id x = i) hs = Some h \<Longrightarrow> w_id h = i"
  by (induction hs) (auto split: if_splits)

lemma find_with_events:
  "find (\<lambda>x. w_id x = i) (map (\<lambda>x. if w_id x = i then set_events evs x else x) hs)
   = map_option (set_events evs) (find (\<lambda>x. w_id x = i) hs)"
  by (induction hs) simp_all

lemma notification_headers_events:
  "notification_headers e i payload (set_events evs h) = notification_headers e i payload h"
  by (simp add: notification_headers_def)

text \<open>
  Claim C10.  For a known, active webhook \<open>send_notification\<close> posts the payload to the
  webhook's URL whatever the payload's event name is, and the events list of the webhook
  plays no part: with any other events list stored, the call returns the same value and
  leaves the same store, up to that list.
\<close>

theorem send_notification_ignores_events:
  assumes "find (\<lambda>x. w_id x = webhook_id) (webhooks w) = Some webhook"
    and "w_is_active webhook"
  shows "http_posts (snd (send_notification e webhook_id payload w))
           = http_posts w
             @ [(w_url webhook, payload, notification_headers e webhook_id payload webhook)]
       \<and> send_notification e webhook_id payload (with_events webhook_id evs w)
           = map_prod id (with_events webhook_id evs) (send_notification e webhook_id payload w)"
proof -
  have i: "w_id webhook = webhook_id"
    using assms(1) by (rule find_id_some)
  have f: "find (\<lambda>x. w_id x = webhook_id) (webhooks (with_events webhook_id evs w))
           = Some (set_events evs webhook)"
    using assms(1) by (simp add: with_events_def find_with_events)
  have a: "send_notification e webhook_id payload w
           = attempts e payload (notification_headers e webhook_id payload webhook)
               max_retries 0 webhook w"
    using assms by (simp add: send_notification_def)
  have b: "send_notification e webhook_id payload (with_events webhook_id evs w)
           = attempts e payload (notification_headers e webhook_id payload webhook)
               max_retries 0 (set_events evs webhook) (with_events webhook_id evs w)"
    using assms(2) f by (simp add: send_notification_def notification_headers_events)
  show ?thesis
    by (simp add: a b attempts_posts attempts_events [OF i])
qed

theorem send_notification_ignores_events_witness:
  "http_posts (snd (send_notification failing_post_env ''wh1''
       (JDict [(''event'', JStr ''batch_job.failed'')]) (empty_world\<lparr>webhooks := [hook]\<rparr>)))
     = [(''https://example.org/hook'', JDict [(''event'', JStr ''batch_job.failed'')],
         notification_headers failing_post_env ''wh1''
           (JDict [(''event'', JStr ''batch_job.failed'')]) hook)]
   \<and> send_notification failing_post_env ''wh1'' (JDict [(''event'', JStr ''batch_job.failed'')])
       (with_events ''wh1'' [] (empty_world\<lparr>webhooks := [hook]\<rparr>))
     = map_prod id (with_events ''wh1'' [])
         (send_notification failing_post_env ''wh1'' (JDict [(''event'', JStr ''batch_job.failed'')])
            (empty_world\<lparr>webhooks := [hook]\<rparr>))"
  using send_notification_ignores_events
    [of "''wh1''" "empty_world\<lparr>webhooks := [hook]\<rparr>" hook failing_post_env
        "JDict [(''event'', JStr ''batch_job.failed'')]" "[]"]
  by (simp add: empty_world_def hook_def)

text \<open>
  Claim C5.  With the default settings, a call for an active webhook whose endpoint
  answers 500 does not return a failure value: after the first failed attempt the wait
  before the retry raises \<open>NameError\<close>, which leaves \<open>send_notification\<close>.  One POST was
  made and one failure counted.
\<close>

theorem send_notification_raises_at_first_retry:
  "fst (send_notification failing_post_env ''wh1'' (JDict [(''event'', JStr ''task.completed'')])
          (empty_world\<lparr>webhooks := [hook]\<rparr>))
     = Inl (Exn ''NameError'' (''name '' @ quoted ''asyncio'' @ '' is not defined''))
   \<and> length (http_posts (snd (send_notification failing_post_env ''wh1''
          (JDict [(''event'', JStr ''task.completed'')]) (empty_world\<lparr>webhooks := [hook]\<rparr>)))) = 1
   \<and> map w_failure_count (webhooks (snd (send_notification failing_post_env ''wh1''
          (JDict [(''event'', JStr ''task.completed'')]) (empty_world\<lparr>webhooks := [hook]\<rparr>)))) = [1]"
  by code_simp

text \<open>
  Claim C2.  A webhook that has failed twice and whose next POST dies of an exception
  other than \<open>httpx.HTTPError\<close> ends the call with \<open>failure_count = 3\<close>, the configured
  maximum, and is still active: that branch counts the failure and never compares the
  count with the maximum.
\<close>

theorem failure_count_at_maximum_still_active:
  "MAX_WEBHOOK_FAILURES broken_post_env = 3
   \<and> map (\<lambda>h. (w_failure_count h, w_is_active h))
        (webhooks (snd (send_notification broken_post_env ''wh1''
           (JDict [(''event'', JStr ''task.completed'')])
           (empty_world\<lparr>webhooks := [hook\<lparr>w_failure_count := 2\<rparr>]\<rparr>)))) = [(3, True)]"
  by code_simp

section \<open>What each service leaves untouched\<close>



lemma commit_task_sel [simp]:
  "batch_jobs (commit_task t w) = batch_jobs w"
  "redis (commit_task t w) = redis w"
  "webhooks (commit_task t w) = webhooks w"
  "clock (commit_task t w) = clock w"
  "uuid_counter (commit_task t w) = uuid_counter w"
  "http_posts (commit_task t w) = http_posts w"
  "provider_requests (commit_task t w) = provider_requests w"
  "tasks (commit_task t w) = map (\<lambda>x. if t_id x = t_id t then t else x) (tasks w)"
  by (simp_all add: commit_task_def)

lemma commit_job_sel [simp]:
  "tasks (commit_job j w) = tasks w"
  "redis (commit_job j w) = redis w"
  "webhooks (commit_job j w) = webhooks w"
  "clock (commit_job j w) = clock w"
  "uuid_counter (commit_job j w) = uuid_counter w"
  "http_posts (commit_job j w) = http_posts w"
  "provider_requests (commit_job j w) = provider_requests w"
  "batch_jobs (commit_job j w) = map (\<lambda>x. if j_id x = j_id j then j else x) (batch_jobs w)"
  by (simp_all add: commit_job_def)

lemma map_replace_twice:
  "t_id a = i \<Longrightarrow>
   map (\<lambda>x. if t_id x = i then b else x) (map (\<lambda>x. if t_id x = i then a else x) xs)
   = map (\<lambda>x. if t_id x = i then b else x) xs"
  by (induction xs) auto

lemma commit_task_twice:
  "t_id a = t_id b \<Longrightarrow> commit_task b (commit_task a w) = commit_task b w"
  by (simp add: commit_task_def map_replace_twice)

lemma find_task_id:
  "find (\<lambda>x. t_id x = i) xs = Some t \<Longrightarrow> t_id t = i"
  by (induction xs) (simp_all split: if_splits)

lemma get_task_id: "get_task w i = Some t \<Longrightarrow> t_id t = i"
  unfolding get_task_def by (rule find_task_id)

lemma find_replaced:
  "find (\<lambda>x. t_id x = t_id t') xs = Some t \<Longrightarrow>
   find (\<lambda>x. t_id x = t_id t') (map (\<lambda>x. if t_id x = t_id t' then t' else x) xs) = Some t'"
  by (induction xs) (simp_all split: if_splits)

lemma find_other:
  "j \<noteq> t_id t' \<Longrightarrow>
   find (\<lambda>x. t_id x = j) (map (\<lambda>x. if t_id x = t_id t' then t' else x) xs)
   = find (\<lambda>x. t_id x = j) xs"
  by (induction xs) simp_all


lemma find_in_set:
  "find P xs = Some x \<Longrightarrow> x \<in> set xs"
  by (induction xs) (simp_all split: if_splits)

lemma find_app:
  "find P (xs @ ys) = (case find P xs of None \<Rightarrow> find P ys | Some x \<Rightarrow> Some x)"
  by (induction xs) simp_all

lemma find_absent:
  "i \<notin> set (map t_id xs) \<Longrightarrow> find (\<lambda>x. t_id x = i) xs = None"
  by (induction xs) auto

lemma distinct_ids_same_row:
  "distinct (map t_id xs) \<Longrightarrow> x \<in> set xs \<Longrightarrow> y \<in> set xs \<Longrightarrow> t_id x = t_id y \<Longrightarrow> x = y"
  by (meson distinct_map inj_onD)

lemma get_task_commit_job [simp]:
  "get_task (commit_job job w) i = get_task w i"
  by (simp add: get_task_def commit_job_def)

lemma get_batch_job_commit_task [simp]:
  "get_batch_job (commit_task t w) i = get_batch_job w i"
  by (simp add: get_batch_job_def)

lemma get_task_commit_same:
  "get_task w (t_id t') = Some t \<Longrightarrow> get_task (commit_task t' w) (t_id t') = Some t'"
  unfolding get_task_def commit_task_sel by (rule find_replaced)

lemma get_task_commit_other:
  "i \<noteq> t_id t' \<Longrightarrow> get_task (commit_task t' w) i = get_task w i"
  unfolding get_task_def commit_task_sel by (rule find_other)

section \<open>How a run of the task service ends\<close>

text \<open>
  The run of \<open>_process_task\<close> never gets past the read of \<open>task.parameters\<close>: the \<open>try\<close>
  block stores the status \<open>processing\<close> and raises.
\<close>

lemma process_task_try_raises:
  "process_task_try e task w
   = (Inl (no_attribute ''Task'' ''parameters''), task\<lparr>t_status := PROCESSING\<rparr>,
      commit_task (task\<lparr>t_status := PROCESSING\<rparr>) w)"
  by (simp add: process_task_try_def start_processing_def task_parameters_def Let_def)

text \<open>For a task with a stored job the notification test raises; for any other it is false.\<close>

lemma task_webhook_cases:
  "task_webhook w task
   = (case t_batch_job_id task of
        None \<Rightarrow> Inr None
      | Some job_id \<Rightarrow>
          (case get_batch_job w job_id of
             None \<Rightarrow> Inr None
           | Some job \<Rightarrow> Inl (no_attribute ''BatchJob'' ''webhook_url'')))"
  by (simp add: task_webhook_def webhook_url_def split: option.split)

text \<open>
  So a run for a stored task leaves the row failed, with the message of that
  \<open>AttributeError\<close> as its error and every other column as it was, and changes nothing
  else in the store; for a task with a stored job the run raises.
\<close>

lemma process_task_found:
  assumes "get_task w i = Some t"
  shows "process_task e i w
         = ((case task_webhook w t of Inl y \<Rightarrow> Inl y | Inr u \<Rightarrow> Inr ()),
            commit_task (t\<lparr>t_status := FAILED,
                           t_error := Some (str_exn (no_attribute ''Task'' ''parameters''))\<rparr>) w)"
proof -
  let ?t1 = "t\<lparr>t_status := PROCESSING\<rparr>"
  let ?t2 = "t\<lparr>t_status := FAILED,
               t_error := Some (str_exn (no_attribute ''Task'' ''parameters''))\<rparr>"
  have c: "commit_task ?t2 (commit_task ?t1 w) = commit_task ?t2 w"
    by (rule commit_task_twice) simp
  have k: "task_webhook (commit_task ?t2 w) ?t2 = task_webhook w t"
    by (simp add: task_webhook_cases split: option.split)
  have x: "process_task_except e (no_attribute ''Task'' ''parameters'') ?t1 (commit_task ?t1 w)
           = ((case task_webhook w t of Inl y \<Rightarrow> Inl y | Inr u \<Rightarrow> Inr ()), commit_task ?t2 w)"
    by (simp add: process_task_except_def Let_def c k)
       (simp add: task_webhook_cases split: option.split)
  show ?thesis
    using assms by (simp add: process_task_def process_task_try_raises x)
qed

lemma process_task_missing:
  "get_task w i = None \<Longrightarrow> process_task e i w = (Inr (), w)"
  by (simp add: process_task_def)

lemma process_task_store:
  "snd (process_task e i w)
   = (case get_task w i of
        None \<Rightarrow> w
      | Some t \<Rightarrow> commit_task (t\<lparr>t_status := FAILED,
                                 t_error := Some (str_exn (no_attribute ''Task'' ''parameters''))\<rparr>) w)"
  by (simp add: process_task_found process_task_missing split: option.split)

lemma process_task_sel [simp]:
  "batch_jobs (snd (process_task e i w)) = batch_jobs w"
  "redis (snd (process_task e i w)) = redis w"
  "webhooks (snd (process_task e i w)) = webhooks w"
  "clock (snd (process_task e i w)) = clock w"
  "uuid_counter (snd (process_task e i w)) = uuid_counter w"
  "http_posts (snd (process_task e i w)) = http_posts w"
  "provider_requests (snd (process_task e i w)) = provider_requests w"
  by (simp_all add: process_task_store split: option.split)

lemma process_task_same:
  assumes "get_task w i = Some t"
  shows "get_task (snd (process_task e i w)) i
         = Some (t\<lparr>t_status := FAILED,
                    t_error := Some (str_exn (no_attribute ''Task'' ''parameters''))\<rparr>)"
proof -
  let ?t2 = "t\<lparr>t_status := FAILED,
               t_error := Some (str_exn (no_attribute ''Task'' ''parameters''))\<rparr>"
  have i: "t_id ?t2 = i"
    using assms by (simp add: get_task_id)
  have "get_task (commit_task ?t2 w) (t_id ?t2) = Some ?t2"
    by (rule get_task_commit_same [of w ?t2 t]) (simp add: i assms)
  then show ?thesis
    using assms i by (simp add: process_task_store)
qed

lemma process_task_other:
  assumes "i \<noteq> i'"
  shows "get_task (snd (process_task e i' w)) i = get_task w i"
proof (cases "get_task w i'")
  case None
  then show ?thesis by (simp add: process_task_store)
next
  case (Some t)
  let ?t2 = "t\<lparr>t_status := FAILED,
               t_error := Some (str_exn (no_attribute ''Task'' ''parameters''))\<rparr>"
  have "i \<noteq> t_id ?t2"
    using assms Some by (simp add: get_task_id)
  then have "get_task (commit_task ?t2 w) i = get_task w i"
    by (rule get_task_commit_other)
  then show ?thesis
    using Some by (simp add: process_task_store)
qed

lemma get_task_same_tasks:
  "tasks w' = tasks w \<Longrightarrow> get_task w' i = get_task w i"
  by (simp add: get_task_def)






section \<open>How a run of a batch job ends\<close>

lemma process_batch_except_store:
  "process_batch_except e x job w
   = (Inl (no_attribute ''BatchJob'' ''webhook_url''),
      commit_job (job\<lparr>j_status := FAILED, j_error := Some (str_exn x)\<rparr>) w)"
  by (simp add: process_batch_except_def webhook_url_def Let_def)

lemma batch_loop_other:
  "list_all (\<lambda>c. t_id c \<noteq> i) children \<Longrightarrow>
   get_task (snd (snd (batch_loop e children job results w))) i = get_task w i"
proof (induction children arbitrary: job results w)
  case Nil
  show ?case by simp
next
  case (Cons c children)
  obtain r1 w1 where p: "process_task e (t_id c) w = (r1, w1)"
    by (cases "process_task e (t_id c) w") auto
  have "i \<noteq> t_id c" using Cons.prems by auto
  then have g: "get_task w1 i = get_task w i"
    using process_task_other [of i "t_id c" e w] p by simp
  have rest: "list_all (\<lambda>c. t_id c \<noteq> i) children"
    using Cons.prems by simp
  note ih = Cons.IH [OF rest]
  show ?case
    using g by (simp add: p ih Let_def split: sum.splits option.splits)
qed



lemma process_batch_job_tasks:
  assumes "get_batch_job w job_id = Some batch_job"
  shows "tasks (snd (process_batch_job e job_id w))
         = tasks (snd (snd (batch_loop e
                  (filter (\<lambda>t. t_batch_job_id t = Some job_id) (tasks w))
                  (batch_job\<lparr>j_status := PROCESSING\<rparr>) []
                  (commit_job (batch_job\<lparr>j_status := PROCESSING\<rparr>) w))))"
proof -
  let ?job1 = "batch_job\<lparr>j_status := PROCESSING\<rparr>"
  let ?w1 = "commit_job ?job1 w"
  let ?children = "filter (\<lambda>t. t_batch_job_id t = Some job_id) (tasks w)"
  obtain r job2 w2 where l: "batch_loop e ?children ?job1 [] ?w1 = (r, job2, w2)"
    by (cases "batch_loop e ?children ?job1 [] ?w1") auto
  show ?thesis
    using assms l
    by (cases r)
       (simp_all add: process_batch_job_def Let_def process_batch_except_store elapsed_seconds_def)
qed

lemma process_batch_job_other:
  assumes "get_task w i = Some t" and "t_batch_job_id t \<noteq> Some job_id"
    and "distinct (map t_id (tasks w))"
  shows "get_task (snd (process_batch_job e job_id w)) i = Some t"
proof (cases "get_batch_job w job_id")
  case None
  then show ?thesis using assms(1) by (simp add: process_batch_job_def)
next
  case (Some batch_job)
  let ?children = "filter (\<lambda>t. t_batch_job_id t = Some job_id) (tasks w)"
  have t_in: "t \<in> set (tasks w)" and t_id: "t_id t = i"
    using assms(1) by (auto simp add: get_task_def dest: find_in_set find_task_id)
  have "t_id c \<noteq> i" if "c \<in> set ?children" for c
  proof
    assume "t_id c = i"
    then have "c = t"
      using distinct_ids_same_row [OF assms(3), of c t] that t_in t_id by simp
    then show False using that assms(2) by simp
  qed
  then have "list_all (\<lambda>c. t_id c \<noteq> i) ?children"
    unfolding list_all_iff by blast
  then have "get_task (snd (snd (batch_loop e ?children (batch_job\<lparr>j_status := PROCESSING\<rparr>) []
                  (commit_job (batch_job\<lparr>j_status := PROCESSING\<rparr>) w)))) i = Some t"
    using assms(1) by (simp add: batch_loop_other)
  then show ?thesis
    unfolding get_task_def process_batch_job_tasks [OF Some] .
qed

section \<open>Which task a batch run reaches\<close>





section \<open>The status a task has when its run starts\<close>



lemma with_status_sel [simp]:
  "batch_jobs (with_status i s w) = batch_jobs w"
  by (simp add: with_status_def)





lemma create_task_sel [simp]:
  "batch_jobs (snd (create_task e task_type input_text parameters w)) = batch_jobs w"
  "redis (snd (create_task e task_type input_text parameters w)) = redis w"
  "provider_requests (snd (create_task e task_type input_text parameters w)) = provider_requests w"
proof -
  let ?new_id = "uuid4 e (uuid_counter w)"
  let ?task = "new_task_row ?new_id task_type input_text (generate_input_hash e input_text)
                 (clock w) None"
  let ?w1 = "w\<lparr>uuid_counter := Suc (uuid_counter w), tasks := tasks w @ [?task]\<rparr>"
  obtain r2 w2 where p: "process_task e ?new_id ?w1 = (r2, w2)"
    by (cases "process_task e ?new_id ?w1") auto
  have "batch_jobs w2 = batch_jobs w" and "redis w2 = redis w"
    and "provider_requests w2 = provider_requests w"
    using process_task_sel [of e ?new_id ?w1] p by simp_all
  then show "batch_jobs (snd (create_task e task_type input_text parameters w)) = batch_jobs w"
    and "redis (snd (create_task e task_type input_text parameters w)) = redis w"
    and "provider_requests (snd (create_task e task_type input_text parameters w))
         = provider_requests w"
    by (simp_all add: create_task_def Let_def p split: option.split sum.split)
qed

text \<open>The row \<open>create_task\<close> returns is the row it added, after its failed run.\<close>

lemma create_task_row:
  assumes "fst (create_task e task_type input_text parameters w) = Inr (TaskRow t)"
  shows "t = (new_task_row (uuid4 e (uuid_counter w)) task_type input_text
                (generate_input_hash e input_text) (clock w) None)
               \<lparr>t_status := FAILED,
                 t_error := Some (str_exn (no_attribute ''Task'' ''parameters''))\<rparr>"
proof -
  let ?new_id = "uuid4 e (uuid_counter w)"
  let ?task = "new_task_row ?new_id task_type input_text (generate_input_hash e input_text)
                 (clock w) None"
  let ?w1 = "w\<lparr>uuid_counter := Suc (uuid_counter w), tasks := tasks w @ [?task]\<rparr>"
  have fresh: "?new_id \<notin> set (map t_id (tasks w))"
    using assms by (auto simp add: create_task_def Let_def split: option.splits if_splits)
  have i: "t_id ?task = ?new_id"
    by (simp add: new_task_row_def)
  from fresh have g: "get_task ?w1 ?new_id = Some ?task"
    by (simp add: get_task_def find_app find_absent i)
  note s = process_task_same [OF g, of e]
  obtain r2 w2 where p: "process_task e ?new_id ?w1 = (r2, w2)"
    by (cases "process_task e ?new_id ?w1") auto
  have "get_task w2 ?new_id
        = Some (?task\<lparr>t_status := FAILED,
                      t_error := Some (str_exn (no_attribute ''Task'' ''parameters''))\<rparr>)"
    using s p by simp
  then show ?thesis
    using assms fresh p
    by (auto simp add: create_task_def Let_def split: option.splits if_splits sum.splits)
qed


section \<open>Tasks in a terminal status\<close>




section \<open>Two identical submits\<close>



section \<open>Result and error of a task\<close>





section \<open>The counters of a completed job\<close>






section \<open>A batch with a failing task\<close>

text \<open>
  Claim C7.  A batch of three tasks is not processed as the claim says.
  \<open>create_batch_job\<close> raises \<open>TypeError\<close> at the constructor call and stores nothing.
  \<open>_process_batch_job\<close>, run on the same batch stored as rows, ends its loop at the first
  task: the task fails, its run raises \<open>AttributeError\<close> at the read of
  \<open>task.batch_job.webhook_url\<close>, and so the other two tasks are never processed; the job
  ends failed, not completed, with both counters at zero and no results map, and the
  call itself raises.
\<close>

theorem failing_task_aborts_batch:
  "create_batch_job default_env
       [[(''task_type'', ''sentiment_analysis''), (''text'', ''hello'')],
        [(''task_type'', ''sentiment_analysis''), (''text'', ''hello'')],
        [(''task_type'', ''sentiment_analysis''), (''text'', ''hello'')]] None empty_world
     = (Inl (Exn ''TypeError''
               (quoted ''webhook_url'' @ '' is an invalid keyword argument for BatchJob'')),
        empty_world)
   \<and> map (\<lambda>t. (t_id t, t_status t)) (tasks batch_world)
     = [(''c1'', PENDING), (''c2'', PENDING), (''c3'', PENDING)]
   \<and> fst (process_batch_job default_env ''j1'' batch_world)
     = Inl (Exn ''AttributeError''
              (quoted ''BatchJob'' @ '' object has no attribute '' @ quoted ''webhook_url''))
   \<and> map (\<lambda>t. (t_id t, t_status t))
       (tasks (snd (process_batch_job default_env ''j1'' batch_world)))
     = [(''c1'', FAILED), (''c2'', PENDING), (''c3'', PENDING)]
   \<and> map (\<lambda>j. (j_status j, j_total_tasks j, j_completed_tasks j, j_failed_tasks j, j_results j))
       (batch_jobs (snd (process_batch_job default_env ''j1'' batch_world)))
     = [(FAILED, 3, 0, 0, None)]"
  by code_simp

section \<open>The fingerprint\<close>

text \<open>
  Claim C8, as stated, fails: the parameters are no part of the fingerprint.  Two
  classification requests for the same text with different category lists store the same
  \<open>input_hash\<close>, and a cache entry stored under the key of the first answers the second.
\<close>

theorem fingerprint_ignores_parameters:
  "[(''categories'', JList [JStr ''spam'', JStr ''ham''])]
     \<noteq> [(''categories'', JList [JStr ''urgent'', JStr ''normal''])]
   \<and> map t_input_hash (tasks (snd (create_task default_env ''classification'' ''hello''
          [(''categories'', JList [JStr ''spam'', JStr ''ham''])] empty_world)))
     = map t_input_hash (tasks (snd (create_task default_env ''classification'' ''hello''
          [(''categories'', JList [JStr ''urgent'', JStr ''normal''])] empty_world)))
   \<and> fst (create_task default_env ''classification'' ''hello''
          [(''categories'', JList [JStr ''urgent'', JStr ''normal''])] cached_world)
     = Inr (CachedResult (JDict [(''category'', JStr ''spam'')]))"
  by code_simp

text \<open>
  Claim C8, amended.  The fingerprint stored with a task is the SHA-256 digest of the input
  text alone, and the cache key is the task type, a colon and that digest.  The parameters
  play no part in \<open>create_task\<close>: any two parameter values give the same outcome, and a
  truthy cache entry under the key is returned whatever the parameters are.
\<close>

theorem fingerprint_covers_type_and_text:
  "create_task e task_type input_text parameters w
     = create_task e task_type input_text parameters' w
   \<and> (\<forall>t. fst (create_task e task_type input_text parameters w) = Inr (TaskRow t) \<longrightarrow>
          t_input_hash t = sha256_hexdigest e input_text \<and> t_task_type t = task_type)
   \<and> (\<forall>c. CACHE_ENABLED e
          \<and> cache_get (task_type @ '':'' @ sha256_hexdigest e input_text) w = Some c
          \<and> truthy c \<longrightarrow>
          create_task e task_type input_text parameters w = (Inr (CachedResult c), w))"
proof (intro conjI allI impI)
  show "create_task e task_type input_text parameters w
     = create_task e task_type input_text parameters' w"
    by (simp add: create_task_def)
next
  fix t
  assume "fst (create_task e task_type input_text parameters w) = Inr (TaskRow t)"
  then have "t = (new_task_row (uuid4 e (uuid_counter w)) task_type input_text
                (generate_input_hash e input_text) (clock w) None)
               \<lparr>t_status := FAILED,
                 t_error := Some (str_exn (no_attribute ''Task'' ''parameters''))\<rparr>"
    by (rule create_task_row)
  then have "t_input_hash t = sha256_hexdigest e input_text \<and> t_task_type t = task_type"
    by (simp add: new_task_row_def generate_input_hash_def)
  then show "t_input_hash t = sha256_hexdigest e input_text" and "t_task_type t = task_type"
    by simp_all
next
  fix c
  assume "CACHE_ENABLED e
          \<and> cache_get (task_type @ '':'' @ sha256_hexdigest e input_text) w = Some c
          \<and> truthy c"
  then show "create_task e task_type input_text parameters w = (Inr (CachedResult c), w)"
    by (simp add: create_task_def Let_def generate_input_hash_def)
qed

theorem fingerprint_covers_type_and_text_witness:
  "create_task default_env ''classification'' ''hello''
       [(''categories'', JList [JStr ''spam'', JStr ''ham''])] empty_world
     = create_task default_env ''classification'' ''hello''
         [(''categories'', JList [JStr ''urgent'', JStr ''normal''])] empty_world
   \<and> map t_input_hash (tasks (snd (create_task default_env ''classification'' ''hello''
          [(''categories'', JList [JStr ''spam'', JStr ''ham''])] empty_world)))
     = [''sha256-hello'']
   \<and> create_task default_env ''classification'' ''hello''
       [(''categories'', JList [JStr ''urgent'', JStr ''normal''])] cached_world
     = (Inr (CachedResult (JDict [(''category'', JStr ''spam'')])), cached_world)"
proof -
  have h: "CACHE_ENABLED default_env
          \<and> cache_get (''classification'' @ '':'' @ sha256_hexdigest default_env ''hello'')
               cached_world = Some (JDict [(''category'', JStr ''spam'')])
          \<and> truthy (JDict [(''category'', JStr ''spam'')])"
    by (simp add: default_env_def cached_world_def cache_get_def empty_world_def)
  have e: "map t_input_hash (tasks (snd (create_task default_env ''classification'' ''hello''
          [(''categories'', JList [JStr ''spam'', JStr ''ham''])] empty_world)))
     = [''sha256-hello'']"
    by code_simp
  show ?thesis
    using fingerprint_covers_type_and_text [of default_env "''classification''" "''hello''"
        "[(''categories'', JList [JStr ''urgent'', JStr ''normal''])]" cached_world
        "[(''categories'', JList [JStr ''spam'', JStr ''ham''])]"]
      fingerprint_covers_type_and_text [of default_env "''classification''" "''hello''"
        "[(''categories'', JList [JStr ''spam'', JStr ''ham''])]" empty_world
        "[(''categories'', JList [JStr ''urgent'', JStr ''normal''])]"]
      h e
    by blast
qed

section \<open>The context provider\<close>

lemma length_join_newline:
  "length (join_newline xs) = sum_list (map length xs) + (length xs - 1)"
  by (induction xs rule: join_newline.induct) simp_all

lemma combine_result:
  "combine max_length ms ctx cur = Inr out \<Longrightarrow>
   \<exists>added k. out = ctx @ added \<and> k \<le> length ms
     \<and> map Some added = take k (map m_text ms)
     \<and> (added \<noteq> [] \<longrightarrow> cur + int (sum_list (map length added)) \<le> max_length)
     \<and> (k < length ms \<longrightarrow>
          (\<exists>text. m_text (ms ! k) = Some text
             \<and> cur + int (sum_list (map length added)) + int (length text) > max_length))"
proof (induction ms arbitrary: ctx cur out)
  case Nil
  then show ?case by simp
next
  case (Cons m ms)
  from Cons.prems obtain frag where frag: "m_text m = Some frag"
    by (cases "m_text m") auto
  show ?case
  proof (cases "cur + int (length frag) > max_length")
    case True
    then have "out = ctx" using Cons.prems frag by simp
    then have "out = ctx @ [] \<and> 0 \<le> length (m # ms)
     \<and> map Some [] = take 0 (map m_text (m # ms))
     \<and> ([] \<noteq> [] \<longrightarrow> cur + int (sum_list (map length ([] :: string list))) \<le> max_length)
     \<and> (0 < length (m # ms) \<longrightarrow>
          (\<exists>text. m_text ((m # ms) ! 0) = Some text
             \<and> cur + int (sum_list (map length ([] :: string list))) + int (length text)
                 > max_length))"
      using True frag by simp
    then show ?thesis by blast
  next
    case False
    then have "combine max_length ms (ctx @ [frag]) (cur + int (length frag)) = Inr out"
      using Cons.prems frag by simp
    from Cons.IH [OF this] obtain added k where ih:
      "out = (ctx @ [frag]) @ added" "k \<le> length ms"
      "map Some added = take k (map m_text ms)"
      "added \<noteq> [] \<longrightarrow> cur + int (length frag) + int (sum_list (map length added)) \<le> max_length"
      "k < length ms \<longrightarrow>
          (\<exists>t. m_text (ms ! k) = Some t
             \<and> cur + int (length frag) + int (sum_list (map length added)) + int (length t)
                 > max_length)"
      by blast
    have "out = ctx @ (frag # added) \<and> Suc k \<le> length (m # ms)
     \<and> map Some (frag # added) = take (Suc k) (map m_text (m # ms))
     \<and> (frag # added \<noteq> [] \<longrightarrow>
           cur + int (sum_list (map length (frag # added))) \<le> max_length)
     \<and> (Suc k < length (m # ms) \<longrightarrow>
          (\<exists>t. m_text ((m # ms) ! Suc k) = Some t
             \<and> cur + int (sum_list (map length (frag # added))) + int (length t)
                 > max_length))"
      using ih False frag by (cases "added = []") (simp_all add: algebra_simps)
    then show ?thesis by blast
  qed
qed

text \<open>
  Claim C9, as stated, fails: the texts are joined with a newline between them, which the
  length check does not count.  Two texts of two characters each pass the check for
  \<open>max_length = 4\<close>; the context returned has five characters.
\<close>

theorem context_longer_than_max_length:
  "get_relevant_context two_docs_env ''query'' 4
     = Some [CHR ''a'', CHR ''b'', CHR 0x0A, CHR ''c'', CHR ''d'']
   \<and> map_option length (get_relevant_context two_docs_env ''query'' 4) = Some 5"
  by (simp add: get_relevant_context_def search_similar_def two_docs_env_def default_env_def)

text \<open>
  Claim C9, amended.  A returned context is the texts of the first \<open>k\<close> matches, whole and
  joined by newlines, in the order the search returned them (the index's order, restricted
  to the matches that reach the score threshold).  The loop stops at the first text that
  would take the sum of the text lengths past \<open>max_length\<close>.  When a text is included, the
  sum of the included text lengths is at most \<open>max_length\<close>; the context itself is longer
  than that sum by one character for each separator.
\<close>

theorem context_is_bounded_prefix:
  assumes "get_relevant_context e query max_length = Some context"
  shows "\<exists>ms kept k. search_similar e query = Inr ms \<and> ms \<noteq> []
     \<and> context = join_newline kept
     \<and> k \<le> length ms \<and> map Some kept = take k (map m_text ms)
     \<and> (kept \<noteq> [] \<longrightarrow> int (sum_list (map length kept)) \<le> max_length)
     \<and> (k < length ms \<longrightarrow>
          (\<exists>text. m_text (ms ! k) = Some text
             \<and> int (sum_list (map length kept)) + int (length text) > max_length))
     \<and> length context = sum_list (map length kept) + (length kept - 1)"
proof -
  from assms obtain ms where ms: "search_similar e query = Inr ms" "ms \<noteq> []"
    by (auto simp add: get_relevant_context_def split: sum.splits if_splits)
  from assms ms obtain kept where kept: "combine max_length ms [] 0 = Inr kept"
    "context = join_newline kept"
    by (auto simp add: get_relevant_context_def split: sum.splits)
  from combine_result [OF kept(1)] obtain k where k:
    "k \<le> length ms" "map Some kept = take k (map m_text ms)"
    "kept \<noteq> [] \<longrightarrow> int (sum_list (map length kept)) \<le> max_length"
    "k < length ms \<longrightarrow>
          (\<exists>text. m_text (ms ! k) = Some text
             \<and> int (sum_list (map length kept)) + int (length text) > max_length)"
    by auto
  have len: "length context = sum_list (map length kept) + (length kept - 1)"
    unfolding kept(2) by (rule length_join_newline)
  show ?thesis
    using ms kept(2) k len by blast
qed

theorem context_is_bounded_prefix_witness:
  "get_relevant_context two_docs_env ''query'' 4
     = Some [CHR ''a'', CHR ''b'', CHR 0x0A, CHR ''c'', CHR ''d'']
   \<and> (\<exists>ms kept k. search_similar two_docs_env ''query'' = Inr ms \<and> ms \<noteq> []
     \<and> [CHR ''a'', CHR ''b'', CHR 0x0A, CHR ''c'', CHR ''d''] = join_newline kept
     \<and> k \<le> length ms \<and> map Some kept = take k (map m_text ms)
     \<and> (kept \<noteq> [] \<longrightarrow> int (sum_list (map length kept)) \<le> 4)
     \<and> (k < length ms \<longrightarrow>
          (\<exists>text. m_text (ms ! k) = Some text
             \<and> int (sum_list (map length kept)) + int (length text) > 4))
     \<and> length [CHR ''a'', CHR ''b'', CHR 0x0A, CHR ''c'', CHR ''d'']
         = sum_list (map length kept) + (length kept - 1))"
proof -
  have h: "get_relevant_context two_docs_env ''query'' 4
     = Some [CHR ''a'', CHR ''b'', CHR 0x0A, CHR ''c'', CHR ''d'']"
    by (simp add: get_relevant_context_def search_similar_def two_docs_env_def default_env_def)
  show ?thesis
    using context_is_bounded_prefix [OF h] h by simp
qed

end
